theory Spec2Isabelle
  imports Main "HOL-Library.AList"
begin

section \<open>The chief client of src/mlrun/api/utils/clients/chief.py\<close>

text \<open>
  A worker forwards some requests to the chief. The class \<^verbatim>\<open>Client\<close> builds the
  outbound call, hands it to a \<^verbatim>\<open>requests\<close> session, logs what happened and turns the
  session's response into a \<^verbatim>\<open>fastapi\<close> response. The embedding keeps the names of
  the source; a leading underscore of a Python name is dropped, since an Isabelle name
  cannot start with one.
\<close>

subsection \<open>Python values and dictionaries\<close>

text \<open>
  Byte strings are lists of \<^typ>\<open>char\<close> (a HOL character is a byte). A Python
  \<^verbatim>\<open>dict\<close> is an association list with distinct keys in insertion order;
  \<^verbatim>\<open>d[k] = v\<close> is \<^const>\<open>AList.update\<close>, which overwrites in place or appends.
  JSON numbers are integers here.
\<close>

type_synonym bytes = string

datatype pyval =
    PNone
  | PBool bool
  | PInt int
  | PStr string
  | PList "pyval list"
  | PDict "(string \<times> pyval) list"

type_synonym py_dict = "(string \<times> pyval) list"

text \<open>\<^verbatim>\<open>d.update(e)\<close>: every item of \<open>e\<close> is stored into \<open>d\<close>, in the order of \<open>e\<close>.\<close>

definition dict_update :: "('k \<times> 'v) list \<Rightarrow> ('k \<times> 'v) list \<Rightarrow> ('k \<times> 'v) list" where
  "dict_update d e = fold (\<lambda>kv acc. AList.update (fst kv) (snd kv) acc) e d"

text \<open>\<^verbatim>\<open>d.get(k)\<close>: the value stored under \<open>k\<close>, or \<^verbatim>\<open>None\<close>.\<close>

definition dict_get :: "py_dict \<Rightarrow> string \<Rightarrow> pyval" where
  "dict_get d k = (case map_of d k of None \<Rightarrow> PNone | Some v \<Rightarrow> v)"

definition has_key :: "('k \<times> 'v) list \<Rightarrow> 'k \<Rightarrow> bool" where
  "has_key d k = (map_of d k \<noteq> None)"

text \<open>
  \<^verbatim>\<open>dict(m)\<close> for a mapping \<open>m\<close> given by its \<^verbatim>\<open>keys()\<close> and its
  \<^verbatim>\<open>__getitem__\<close>: every key is looked up and stored. A key of \<open>m\<close> that \<open>m\<close> itself
  has no value for would be a \<^verbatim>\<open>KeyError\<close>; the mappings below never have one
  (lemmas \<open>cid_getitem_keys\<close> and \<open>mapping_getitem_keys\<close>).
\<close>

definition py_dict_of :: "'k list \<Rightarrow> ('k \<Rightarrow> 'v option) \<Rightarrow> ('k \<times> 'v) list" where
  "py_dict_of keys getitem =
     fold (\<lambda>k acc. case getitem k of None \<Rightarrow> acc | Some v \<Rightarrow> AList.update k v acc) keys []"

definition str_dict :: "(string \<times> string) list \<Rightarrow> pyval" where
  "str_dict d = PDict (map (\<lambda>kv. (fst kv, PStr (snd kv))) d)"

subsection \<open>The case-insensitive header mapping of a transport response\<close>

text \<open>
  \<^verbatim>\<open>requests.structures.CaseInsensitiveDict\<close> keeps an ordered store from the
  lower-cased key to the pair of the key as it was last set and the value. Header names
  are ASCII, so \<^verbatim>\<open>str.lower\<close> is modelled on the letters A to Z.
\<close>

definition lower_char :: "char \<Rightarrow> char" where
  "lower_char c =
     (let n = (of_char c :: nat) in if 65 \<le> n \<and> n \<le> 90 then char_of (n + 32) else c)"

definition lower :: "string \<Rightarrow> string" where
  "lower s = map lower_char s"

type_synonym cid = "(string \<times> (string \<times> string)) list"

definition cid_setitem :: "cid \<Rightarrow> string \<Rightarrow> string \<Rightarrow> cid" where
  "cid_setitem h k v = AList.update (lower k) (k, v) h"

definition cid_getitem :: "cid \<Rightarrow> string \<Rightarrow> string option" where
  "cid_getitem h k = map_option snd (map_of h (lower k))"

definition cid_keys :: "cid \<Rightarrow> string list" where
  "cid_keys h = map (\<lambda>e. fst (snd e)) h"

definition cid_items :: "cid \<Rightarrow> (string \<times> string) list" where
  "cid_items h = map snd h"

text \<open>\<^verbatim>\<open>CaseInsensitiveDict(data)\<close>: the items of \<open>data\<close> are set one after the other.\<close>

definition CaseInsensitiveDict :: "(string \<times> string) list \<Rightarrow> cid" where
  "CaseInsensitiveDict xs = fold (\<lambda>kv h. cid_setitem h (fst kv) (snd kv)) xs []"

text \<open>The invariant of the store: keys are distinct and each is the lower-cased name.\<close>

definition cid_wf :: "cid \<Rightarrow> bool" where
  "cid_wf h = (distinct (map fst h) \<and> list_all (\<lambda>e. fst e = lower (fst (snd e))) h)"

subsection \<open>Requests, responses and errors\<close>

text \<open>
  What the client reads of the inbound \<^verbatim>\<open>fastapi.Request\<close>: the header and query
  mappings by their items (\<^verbatim>\<open>keys()\<close> is the list of first components,
  \<^verbatim>\<open>__getitem__\<close> is \<^const>\<open>map_of\<close>) and the cookie dictionary. A request object is
  always truthy (its scope is never empty), so \<^verbatim>\<open>if request\<close> tests for \<^verbatim>\<open>None\<close>:
  the optional request is an \<^typ>\<open>'a option\<close>.
\<close>

record request =
  req_headers :: "(string \<times> string) list"
  req_query_params :: "(string \<times> string) list"
  req_cookies :: "(string \<times> string) list"

text \<open>What the client reads of a \<^verbatim>\<open>requests.Response\<close>.\<close>

record requests_response =
  resp_content :: bytes
  resp_status_code :: int
  resp_headers :: cid

text \<open>The arguments \<^verbatim>\<open>fastapi.responses.Response\<close> is constructed with.\<close>

record fastapi_response =
  content :: bytes
  status_code :: int
  headers :: "(string \<times> string) list"
  media_type :: string

text \<open>The call handed to \<^verbatim>\<open>requests.Session.request\<close>.\<close>

record outbound_call =
  call_method :: string
  call_url :: string
  call_verify :: bool
  call_kwargs :: py_dict

text \<open>
  The exceptions that leave the client: whatever the session raised (by name), the
  domain error of \<^verbatim>\<open>mlrun.errors\<close> with the status and body of the failed response, and
  the \<^verbatim>\<open>TypeError\<close> of Python for a keyword argument given twice.
\<close>

datatype error =
    TransportError string
  | MLRunHTTPError int bytes
  | TypeError string

text \<open>What a call leaves behind, in order: log lines and calls of the session.\<close>

datatype level = Debug | Warning

datatype event =
    Log level string py_dict
  | Sent outbound_call

text \<open>
  The collaborators of the client: the configuration (\<^verbatim>\<open>mlrun.mlconf\<close>), the session
  (a response, or the name of the exception it raised) and the decoders of
  \<^verbatim>\<open>requests.Response\<close> (\<^verbatim>\<open>json()\<close> raises where \<open>response_json\<close> is \<open>None\<close>).
\<close>

record env =
  resolve_chief_api_url :: string
  api_base_version :: string
  session_request :: "outbound_call \<Rightarrow> string + requests_response"
  response_json :: "requests_response \<Rightarrow> pyval option"
  response_text :: "requests_response \<Rightarrow> string"

record client =
  api_url :: string

text \<open>
  \<^verbatim>\<open>requests.Response.ok\<close> is true when \<^verbatim>\<open>raise_for_status()\<close> of \<^verbatim>\<open>requests\<close> does
  not raise, and that raises for a client error status (400 to 499) and for a server
  error status (500 to 599).
\<close>

definition ok :: "requests_response \<Rightarrow> bool" where
  "ok r =
     (\<not> ((400 \<le> resp_status_code r \<and> resp_status_code r < 500)
         \<or> (500 \<le> resp_status_code r \<and> resp_status_code r < 600)))"

text \<open>
  Modelled from the spec: \<^verbatim>\<open>mlrun.errors.raise_for_status\<close> is not among the sources.
  The spec has it convert the failed response into a domain error carrying the status
  and the available error detail, and raise it. \<open>None\<close> is a normal return.
\<close>

definition raise_for_status :: "requests_response \<Rightarrow> error option" where
  "raise_for_status r =
     (if ok r then None else Some (MLRunHTTPError (resp_status_code r) (resp_content r)))"

subsection \<open>Construction\<close>

text \<open>
  Lines 36 to 40. \<^verbatim>\<open>s[:-1]\<close> is \<^const>\<open>butlast\<close>; \<^verbatim>\<open>s.endswith("/")\<close> is false on the
  empty string. The pool and retry settings of the session (lines 30 to 35) do not
  enter any result below and belong to \<open>session_request\<close>.
\<close>

definition endswith :: "string \<Rightarrow> string \<Rightarrow> bool" where
  "endswith s suffix = (length suffix \<le> length s \<and> drop (length s - length suffix) s = suffix)"

definition init :: "env \<Rightarrow> client" where
  "init e =
     \<lparr>api_url = (if endswith (resolve_chief_api_url e) ''/''
                 then butlast (resolve_chief_api_url e)
                 else resolve_chief_api_url e)\<rparr>"

subsection \<open>Request translation and response translation\<close>

text \<open>Lines 113 to 124. \<^verbatim>\<open>body if body else {}\<close>: \<^verbatim>\<open>None\<close> and the empty dictionary are falsy.\<close>

definition resolve_request_kwargs_from_request :: "request option \<Rightarrow> py_dict option \<Rightarrow> py_dict" where
  "resolve_request_kwargs_from_request request body =
     (let kwargs = [] in
      case request of
        None \<Rightarrow> kwargs
      | Some req \<Rightarrow>
          (let data = (case body of None \<Rightarrow> [] | Some b \<Rightarrow> if b = [] then [] else b);
               kwargs = dict_update kwargs [(''data'', PDict data)];
               kwargs = dict_update kwargs
                 [(''headers'', str_dict (py_dict_of (map fst (req_headers req)) (map_of (req_headers req))))];
               kwargs = dict_update kwargs
                 [(''params'', str_dict (py_dict_of (map fst (req_query_params req)) (map_of (req_query_params req))))];
               kwargs = dict_update kwargs [(''cookies'', str_dict (req_cookies req))]
           in kwargs))"

text \<open>Lines 126 to 139.\<close>

definition convert_requests_response_to_fastapi_response :: "requests_response \<Rightarrow> fastapi_response" where
  "convert_requests_response_to_fastapi_response chief_response =
     \<lparr>content = resp_content chief_response,
      status_code = resp_status_code chief_response,
      headers = py_dict_of (cid_keys (resp_headers chief_response)) (cid_getitem (resp_headers chief_response)),
      media_type = ''application/json''\<rparr>"

text \<open>
  What the constructor makes of these arguments (\<^verbatim>\<open>init_headers\<close> of
  \<^verbatim>\<open>starlette.responses.Response\<close>): the header names are lower-cased, and the media
  type is appended as the \<^verbatim>\<open>content-type\<close> header only when the headers given hold
  none, with the charset for a text type. The \<^verbatim>\<open>content-length\<close> header it may also
  append is left out.
\<close>

definition init_headers :: "fastapi_response \<Rightarrow> (string \<times> string) list" where
  "init_headers response =
     (let raw_headers = map (\<lambda>kv. (lower (fst kv), snd kv)) (headers response);
          populate_content_type = (''content-type'' \<notin> set (map fst raw_headers));
          content_type = (if take 5 (media_type response) = ''text/''
                          then media_type response @ ''; charset=utf-8''
                          else media_type response)
      in if populate_content_type then raw_headers @ [(''content-type'', content_type)]
         else raw_headers)"

subsection \<open>Sending\<close>

text \<open>Line 145.\<close>

definition request_url :: "env \<Rightarrow> client \<Rightarrow> string \<Rightarrow> string" where
  "request_url e self path = api_url self @ ''/api/'' @ api_base_version e @ ''/'' @ path"

text \<open>Lines 146 and 147.\<close>

definition default_timeout :: "py_dict \<Rightarrow> py_dict" where
  "default_timeout kwargs =
     (if dict_get kwargs ''timeout'' = PNone then AList.update ''timeout'' (PInt 20) kwargs else kwargs)"

text \<open>
  Lines 151 to 163, on values: \<^verbatim>\<open>copy.deepcopy\<close> returns an equal value. Every exception
  of the \<^verbatim>\<open>try\<close> block is caught: \<^verbatim>\<open>json()\<close> raising, and \<^verbatim>\<open>data.get\<close> on decoded data
  that is not a dictionary (an \<^verbatim>\<open>AttributeError\<close>).
\<close>

definition failure_log_kwargs :: "env \<Rightarrow> string \<Rightarrow> string \<Rightarrow> requests_response \<Rightarrow> py_dict \<Rightarrow> py_dict" where
  "failure_log_kwargs e method path response kwargs =
     (let log_kwargs = kwargs;
          log_kwargs = dict_update log_kwargs [(''method'', PStr method), (''path'', PStr path)]
      in if resp_content response \<noteq> [] then
           (case response_json e response of
              Some (PDict data) \<Rightarrow>
                dict_update log_kwargs
                  [(''error'', dict_get data ''error''),
                   (''error_stack_trace'', dict_get data ''errorStackTrace'')]
            | _ \<Rightarrow> log_kwargs)
         else log_kwargs)"

text \<open>Lines 169 to 172.\<close>

definition success_log_data :: "env \<Rightarrow> requests_response \<Rightarrow> pyval" where
  "success_log_data e response =
     (case response_json e response of
        Some data \<Rightarrow> data
      | None \<Rightarrow> PStr (response_text e response))"

text \<open>
  Lines 142 to 180. The result is the trace of log lines and session calls, and the
  response or the exception. A call with \<^verbatim>\<open>**kwargs\<close> raises \<^verbatim>\<open>TypeError\<close> when
  \<open>kwargs\<close> holds a keyword the call also writes out: \<^verbatim>\<open>url\<close> at line 148,
  \<^verbatim>\<open>verify\<close> at line 149, \<^verbatim>\<open>response\<close> at line 173.
\<close>

definition send_request_to_api ::
  "env \<Rightarrow> client \<Rightarrow> string \<Rightarrow> string \<Rightarrow> bool \<Rightarrow> py_dict \<Rightarrow> event list \<times> (error + requests_response)" where
  "send_request_to_api e self method path raise_on_failure kwargs0 =
     (let url = request_url e self path;
          kwargs = default_timeout kwargs0
      in if has_key kwargs ''url'' then ([], Inl (TypeError ''url''))
      else
        let sending = Log Debug ''Sending request to chief''
                        ([(''method'', PStr method), (''url'', PStr url)] @ kwargs)
        in if has_key kwargs ''verify'' then ([sending], Inl (TypeError ''verify''))
        else
          let call = \<lparr>call_method = method, call_url = url, call_verify = False, call_kwargs = kwargs\<rparr>
          in case session_request e call of
               Inl exn \<Rightarrow> ([sending, Sent call], Inl (TransportError exn))
             | Inr response \<Rightarrow>
                 if \<not> ok response then
                   let log_kwargs = failure_log_kwargs e method path response kwargs;
                       trace = [sending, Sent call, Log Warning ''Request to chief failed'' log_kwargs]
                   in if raise_on_failure then
                        (case raise_for_status response of
                           Some err \<Rightarrow> (trace, Inl err)
                         | None \<Rightarrow> (trace, Inr response))
                      else (trace, Inr response)
                 else
                   let data = success_log_data e response
                   in if has_key kwargs ''response'' then ([sending, Sent call], Inl (TypeError ''response''))
                      else
                        ([sending, Sent call,
                          Log Debug ''Request to chief succeeded''
                            ([(''method'', PStr method), (''url'', PStr url)] @ kwargs @ [(''response'', data)])],
                         Inr response))"

text \<open>Lines 94 to 111. The defaults of the source are written out by the callers.\<close>

definition proxy_request_to_chief ::
  "env \<Rightarrow> client \<Rightarrow> string \<Rightarrow> string \<Rightarrow> request option \<Rightarrow> py_dict option \<Rightarrow> bool
     \<Rightarrow> event list \<times> (error + fastapi_response)" where
  "proxy_request_to_chief e self method path request body raise_on_failure =
     (let request_kwargs = resolve_request_kwargs_from_request request body;
          sent = send_request_to_api e self method path raise_on_failure request_kwargs
      in case snd sent of
           Inl err \<Rightarrow> (fst sent, Inl err)
         | Inr chief_response \<Rightarrow>
             (fst sent, Inr (convert_requests_response_to_fastapi_response chief_response)))"

subsection \<open>The named operations\<close>

text \<open>Lines 42 to 92. None of them passes \<^verbatim>\<open>raise_on_failure\<close>, which defaults to false.\<close>

definition get_internal_background_task ::
  "env \<Rightarrow> client \<Rightarrow> string \<Rightarrow> request option \<Rightarrow> event list \<times> (error + fastapi_response)" where
  "get_internal_background_task e self name request =
     proxy_request_to_chief e self ''GET'' (''background-tasks/'' @ name) request None False"

definition trigger_migrations ::
  "env \<Rightarrow> client \<Rightarrow> request option \<Rightarrow> event list \<times> (error + fastapi_response)" where
  "trigger_migrations e self request =
     proxy_request_to_chief e self ''POST'' ''operations/migrations'' request None False"

definition create_schedule ::
  "env \<Rightarrow> client \<Rightarrow> string \<Rightarrow> request option \<Rightarrow> py_dict option \<Rightarrow> event list \<times> (error + fastapi_response)" where
  "create_schedule e self project request body =
     proxy_request_to_chief e self ''POST'' (''projects/'' @ project @ ''/schedules'') request body False"

definition update_schedule ::
  "env \<Rightarrow> client \<Rightarrow> string \<Rightarrow> string \<Rightarrow> request option \<Rightarrow> py_dict option
     \<Rightarrow> event list \<times> (error + fastapi_response)" where
  "update_schedule e self project name request body =
     proxy_request_to_chief e self ''PUT'' (''projects/'' @ project @ ''/schedules/'' @ name) request body False"

definition delete_schedule ::
  "env \<Rightarrow> client \<Rightarrow> string \<Rightarrow> string \<Rightarrow> request option \<Rightarrow> event list \<times> (error + fastapi_response)" where
  "delete_schedule e self project name request =
     proxy_request_to_chief e self ''DELETE'' (''projects/'' @ project @ ''/schedules/'' @ name) request None False"

definition delete_schedules ::
  "env \<Rightarrow> client \<Rightarrow> string \<Rightarrow> request option \<Rightarrow> event list \<times> (error + fastapi_response)" where
  "delete_schedules e self project request =
     proxy_request_to_chief e self ''DELETE'' (''projects/'' @ project @ ''/schedules'') request None False"

definition invoke_schedule ::
  "env \<Rightarrow> client \<Rightarrow> string \<Rightarrow> string \<Rightarrow> request option \<Rightarrow> event list \<times> (error + fastapi_response)" where
  "invoke_schedule e self project name request =
     proxy_request_to_chief e self ''POST''
       (''projects/'' @ project @ ''/schedules/'' @ name @ ''/invoke'') request None False"

definition submit_job ::
  "env \<Rightarrow> client \<Rightarrow> request option \<Rightarrow> py_dict option \<Rightarrow> event list \<times> (error + fastapi_response)" where
  "submit_job e self request body =
     proxy_request_to_chief e self ''POST'' ''submit_job'' request body False"

definition build_function ::
  "env \<Rightarrow> client \<Rightarrow> request option \<Rightarrow> py_dict option \<Rightarrow> event list \<times> (error + fastapi_response)" where
  "build_function e self request body =
     proxy_request_to_chief e self ''POST'' ''build/function'' request body False"

definition delete_project ::
  "env \<Rightarrow> client \<Rightarrow> string \<Rightarrow> request option \<Rightarrow> event list \<times> (error + fastapi_response)" where
  "delete_project e self name request =
     proxy_request_to_chief e self ''DELETE'' (''projects/'' @ name) request None False"

subsection \<open>The logging step on objects\<close>

text \<open>
  Whether a copy is shallow or deep shows only in the identity of objects. Here a
  mutable object, a \<^verbatim>\<open>dict\<close> or a \<^verbatim>\<open>list\<close>, carries the address it lives at;
  strings, numbers, booleans and \<^verbatim>\<open>None\<close> are immutable and have none. New objects
  take the next free address, which is threaded through.
\<close>

datatype hval =
    HNone
  | HBool bool
  | HInt int
  | HStr string
  | HList nat "hval list"
  | HDict nat "(string \<times> hval) list"

text \<open>The value of an object, without addresses, and the addresses in it.\<close>

fun erase :: "hval \<Rightarrow> pyval"
  and erase_list :: "hval list \<Rightarrow> pyval list"
  and erase_items :: "(string \<times> hval) list \<Rightarrow> py_dict" where
  "erase HNone = PNone"
| "erase (HBool b) = PBool b"
| "erase (HInt i) = PInt i"
| "erase (HStr s) = PStr s"
| "erase (HList a xs) = PList (erase_list xs)"
| "erase (HDict a kvs) = PDict (erase_items kvs)"
| "erase_list [] = []"
| "erase_list (x # xs) = erase x # erase_list xs"
| "erase_items [] = []"
| "erase_items ((k, v) # kvs) = (k, erase v) # erase_items kvs"

fun addrs :: "hval \<Rightarrow> nat list"
  and addrs_list :: "hval list \<Rightarrow> nat list"
  and addrs_items :: "(string \<times> hval) list \<Rightarrow> nat list" where
  "addrs HNone = []"
| "addrs (HBool b) = []"
| "addrs (HInt i) = []"
| "addrs (HStr s) = []"
| "addrs (HList a xs) = a # addrs_list xs"
| "addrs (HDict a kvs) = a # addrs_items kvs"
| "addrs_list [] = []"
| "addrs_list (x # xs) = addrs x @ addrs_list xs"
| "addrs_items [] = []"
| "addrs_items ((k, v) # kvs) = addrs v @ addrs_items kvs"

text \<open>
  \<^verbatim>\<open>copy.deepcopy\<close>: a new dictionary or list is made first and then filled with the
  copies of the members; an immutable value is returned as it is. The memo of
  \<^verbatim>\<open>deepcopy\<close>, which keeps two references to one object two references to one copy,
  is left out.
\<close>

fun deepcopy :: "hval \<Rightarrow> nat \<Rightarrow> hval \<times> nat"
  and deepcopy_list :: "hval list \<Rightarrow> nat \<Rightarrow> hval list \<times> nat"
  and deepcopy_items :: "(string \<times> hval) list \<Rightarrow> nat \<Rightarrow> (string \<times> hval) list \<times> nat" where
  "deepcopy HNone n = (HNone, n)"
| "deepcopy (HBool b) n = (HBool b, n)"
| "deepcopy (HInt i) n = (HInt i, n)"
| "deepcopy (HStr s) n = (HStr s, n)"
| "deepcopy (HList a xs) n = (let (ys, n') = deepcopy_list xs (Suc n) in (HList n ys, n'))"
| "deepcopy (HDict a kvs) n = (let (kvs', n') = deepcopy_items kvs (Suc n) in (HDict n kvs', n'))"
| "deepcopy_list [] n = ([], n)"
| "deepcopy_list (x # xs) n =
     (let (y, n1) = deepcopy x n; (ys, n2) = deepcopy_list xs n1 in (y # ys, n2))"
| "deepcopy_items [] n = ([], n)"
| "deepcopy_items ((k, v) # kvs) n =
     (let (v', n1) = deepcopy v n; (kvs', n2) = deepcopy_items kvs n1 in ((k, v') # kvs', n2))"

text \<open>
  \<open>update_at a f v\<close> is \<open>v\<close> as it reads after the dictionary at address \<open>a\<close> was
  changed by \<open>f\<close>: every reference to that dictionary sees the change.
\<close>

fun update_at :: "nat \<Rightarrow> ((string \<times> hval) list \<Rightarrow> (string \<times> hval) list) \<Rightarrow> hval \<Rightarrow> hval"
  and update_at_list :: "nat \<Rightarrow> ((string \<times> hval) list \<Rightarrow> (string \<times> hval) list) \<Rightarrow> hval list \<Rightarrow> hval list"
  and update_at_items ::
    "nat \<Rightarrow> ((string \<times> hval) list \<Rightarrow> (string \<times> hval) list) \<Rightarrow> (string \<times> hval) list \<Rightarrow> (string \<times> hval) list" where
  "update_at a f HNone = HNone"
| "update_at a f (HBool b) = HBool b"
| "update_at a f (HInt i) = HInt i"
| "update_at a f (HStr s) = HStr s"
| "update_at a f (HList b xs) = HList b (update_at_list a f xs)"
| "update_at a f (HDict b kvs) =
     (if a = b then HDict b (f (update_at_items a f kvs)) else HDict b (update_at_items a f kvs))"
| "update_at_list a f [] = []"
| "update_at_list a f (x # xs) = update_at a f x # update_at_list a f xs"
| "update_at_items a f [] = []"
| "update_at_items a f ((k, v) # kvs) = (k, update_at a f v) # update_at_items a f kvs"

text \<open>The objects that \<^verbatim>\<open>json()\<close> builds for decoded data are new.\<close>

fun alloc :: "pyval \<Rightarrow> nat \<Rightarrow> hval \<times> nat"
  and alloc_list :: "pyval list \<Rightarrow> nat \<Rightarrow> hval list \<times> nat"
  and alloc_items :: "py_dict \<Rightarrow> nat \<Rightarrow> (string \<times> hval) list \<times> nat" where
  "alloc PNone n = (HNone, n)"
| "alloc (PBool b) n = (HBool b, n)"
| "alloc (PInt i) n = (HInt i, n)"
| "alloc (PStr s) n = (HStr s, n)"
| "alloc (PList xs) n = (let (ys, n') = alloc_list xs (Suc n) in (HList n ys, n'))"
| "alloc (PDict kvs) n = (let (kvs', n') = alloc_items kvs (Suc n) in (HDict n kvs', n'))"
| "alloc_list [] n = ([], n)"
| "alloc_list (x # xs) n =
     (let (y, n1) = alloc x n; (ys, n2) = alloc_list xs n1 in (y # ys, n2))"
| "alloc_items [] n = ([], n)"
| "alloc_items ((k, v) # kvs) n =
     (let (v', n1) = alloc v n; (kvs', n2) = alloc_items kvs n1 in ((k, v') # kvs', n2))"

definition hdict_get :: "(string \<times> hval) list \<Rightarrow> string \<Rightarrow> hval" where
  "hdict_get d k = (case map_of d k of None \<Rightarrow> HNone | Some v \<Rightarrow> v)"

text \<open>
  Lines 151 to 163 on objects: \<open>kwargs\<close> is the dictionary at \<open>a0\<close> with the given
  items and \<open>n\<close> is the next free address, so the copy of line 151 lives at \<open>n\<close>. The
  result is \<open>kwargs\<close> as it reads afterwards, \<open>log_kwargs\<close> and the next free address.
\<close>

definition failure_log_kwargs_store ::
  "env \<Rightarrow> string \<Rightarrow> string \<Rightarrow> requests_response \<Rightarrow> nat \<Rightarrow> (string \<times> hval) list \<Rightarrow> nat
     \<Rightarrow> hval \<times> hval \<times> nat" where
  "failure_log_kwargs_store e method path response a0 items n =
     (let kwargs = HDict a0 items;
          (log_kwargs, n1) = deepcopy kwargs n;
          add_call = (\<lambda>d. dict_update d [(''method'', HStr method), (''path'', HStr path)]);
          kwargs = update_at n add_call kwargs;
          log_kwargs = update_at n add_call log_kwargs
      in if resp_content response \<noteq> [] then
           (case response_json e response of
              None \<Rightarrow> (kwargs, log_kwargs, n1)
            | Some decoded \<Rightarrow>
                (case alloc decoded n1 of
                   (HDict b data, n2) \<Rightarrow>
                     (let add_error = (\<lambda>d. dict_update d
                            [(''error'', hdict_get data ''error''),
                             (''error_stack_trace'', hdict_get data ''errorStackTrace'')])
                      in (update_at n add_error kwargs, update_at n add_error log_kwargs, n2))
                 | (other, n2) \<Rightarrow> (kwargs, log_kwargs, n2)))
         else (kwargs, log_kwargs, n1))"

text \<open>
  The logging dictionary in the words of the specification: a shallow copy
  (\<^verbatim>\<open>copy.copy\<close>, a new dictionary holding the same member objects) with method and
  path added.
\<close>

definition shallow_copy :: "nat \<Rightarrow> (string \<times> hval) list \<Rightarrow> nat \<Rightarrow> hval \<times> nat" where
  "shallow_copy a0 items n = (HDict n items, Suc n)"

definition spec_shallow_log_kwargs :: "string \<Rightarrow> string \<Rightarrow> nat \<Rightarrow> (string \<times> hval) list \<Rightarrow> nat \<Rightarrow> hval" where
  "spec_shallow_log_kwargs method path a0 items n =
     (let (log_kwargs, n1) = shallow_copy a0 items n
      in update_at n (\<lambda>d. dict_update d [(''method'', HStr method), (''path'', HStr path)]) log_kwargs)"

subsection \<open>Observing a trace\<close>

text \<open>The calls of the session in a trace, and the lines logged at a level with a message.\<close>

fun sent_calls :: "event list \<Rightarrow> outbound_call list" where
  "sent_calls [] = []"
| "sent_calls (Sent c # evs) = c # sent_calls evs"
| "sent_calls (Log l m f # evs) = sent_calls evs"

fun logged :: "level \<Rightarrow> string \<Rightarrow> event list \<Rightarrow> py_dict list" where
  "logged l m [] = []"
| "logged l m (Sent c # evs) = logged l m evs"
| "logged l m (Log l' m' f # evs) = (if l' = l \<and> m' = m then f # logged l m evs else logged l m evs)"

text \<open>The failure branch is the one that logs the warning of line 164, the success
  branch the one that logs the debug line of line 173.\<close>

definition took_failure_branch :: "event list \<Rightarrow> bool" where
  "took_failure_branch evs = (logged Warning ''Request to chief failed'' evs \<noteq> [])"

definition took_success_branch :: "event list \<Rightarrow> bool" where
  "took_success_branch evs = (logged Debug ''Request to chief succeeded'' evs \<noteq> [])"

text \<open>The call that \<open>proxy_request_to_chief\<close> hands to the session (lemma \<open>proxy_sent\<close>).\<close>

definition chief_call ::
  "env \<Rightarrow> client \<Rightarrow> string \<Rightarrow> string \<Rightarrow> request option \<Rightarrow> py_dict option \<Rightarrow> outbound_call" where
  "chief_call e self method path request body =
     \<lparr>call_method = method, call_url = request_url e self path, call_verify = False,
      call_kwargs = default_timeout (resolve_request_kwargs_from_request request body)\<rparr>"

text \<open>Two slashes in a row somewhere in a string.\<close>

fun double_slash :: "string \<Rightarrow> bool" where
  "double_slash (c # d # s) = ((c = CHR ''/'' \<and> d = CHR ''/'') \<or> double_slash (d # s))"
| "double_slash s = False"

text \<open>
  A pass-through outcome: one call went to the session, and the caller gets the
  translation of whatever response came back, whatever its status, or the exception of
  the session. A domain error is not a pass-through outcome.
\<close>

definition passes_through :: "env \<Rightarrow> event list \<times> (error + fastapi_response) \<Rightarrow> bool" where
  "passes_through e out =
     (case sent_calls (fst out) of
        [c] \<Rightarrow>
          (case session_request e c of
             Inl exn \<Rightarrow> snd out = Inl (TransportError exn)
           | Inr r \<Rightarrow> snd out = Inr (convert_requests_response_to_fastapi_response r))
      | _ \<Rightarrow> False)"

subsection \<open>Concrete collaborators\<close>

text \<open>A response with given status, body and header items; a configuration with a chief
  that gives one answer to every call and a decoder with one outcome.\<close>

definition example_response :: "int \<Rightarrow> bytes \<Rightarrow> (string \<times> string) list \<Rightarrow> requests_response" where
  "example_response status body header_items =
     \<lparr>resp_content = body, resp_status_code = status, resp_headers = CaseInsensitiveDict header_items\<rparr>"

definition example_env :: "string \<Rightarrow> string + requests_response \<Rightarrow> pyval option \<Rightarrow> env" where
  "example_env url answer decoded =
     \<lparr>resolve_chief_api_url = url, api_base_version = ''v1'',
      session_request = (\<lambda>c. answer),
      response_json = (\<lambda>r. decoded),
      response_text = (\<lambda>r. resp_content r)\<rparr>"

text \<open>The bytes of \<^verbatim>\<open>{"a":1}\<close>.\<close>

definition example_body :: bytes where
  "example_body = ''{'' @ [CHR 0x22] @ ''a'' @ [CHR 0x22] @ '':1}''"

text \<open>The keyword arguments of a call with an inbound request, as objects.\<close>

definition example_kwargs :: "(string \<times> hval) list" where
  "example_kwargs =
     [(''data'', HDict 1 []), (''headers'', HDict 2 [(''x'', HStr ''y'')]), (''params'', HDict 3 []),
      (''cookies'', HDict 4 []), (''timeout'', HInt 20)]"

section \<open>Properties\<close>

subsection \<open>Auxiliary facts\<close>

lemma resolve_None: "resolve_request_kwargs_from_request None body = []"
  by (simp add: resolve_request_kwargs_from_request_def)

lemma resolve_keys:
  "map fst (resolve_request_kwargs_from_request request body) =
     (case request of None \<Rightarrow> [] | Some r \<Rightarrow> [''data'', ''headers'', ''params'', ''cookies''])"
  by (simp add: resolve_request_kwargs_from_request_def dict_update_def Let_def split: option.splits)

lemma default_timeout_resolve:
  "default_timeout (resolve_request_kwargs_from_request request body) =
     resolve_request_kwargs_from_request request body @ [(''timeout'', PInt 20)]"
  by (simp add: resolve_request_kwargs_from_request_def dict_update_def Let_def default_timeout_def dict_get_def
      split: option.splits)

lemma kwargs_keys:
  "map fst (default_timeout (resolve_request_kwargs_from_request request body)) =
     (case request of None \<Rightarrow> [''timeout''] | Some r \<Rightarrow> [''data'', ''headers'', ''params'', ''cookies'', ''timeout''])"
  by (simp add: default_timeout_resolve resolve_keys split: option.splits)

lemma has_key_iff: "has_key d k \<longleftrightarrow> k \<in> set (map fst d)"
  by (simp add: has_key_def map_of_eq_None_iff)

lemma no_clash:
  "\<not> has_key (default_timeout (resolve_request_kwargs_from_request request body)) ''url''"
  "\<not> has_key (default_timeout (resolve_request_kwargs_from_request request body)) ''verify''"
  "\<not> has_key (default_timeout (resolve_request_kwargs_from_request request body)) ''response''"
  unfolding has_key_iff kwargs_keys by (simp_all split: option.splits)

lemma send_resolved:
  "send_request_to_api e self method path raise_on_failure (resolve_request_kwargs_from_request request body) =
    (let kwargs = default_timeout (resolve_request_kwargs_from_request request body);
         url = request_url e self path;
         call = chief_call e self method path request body;
         sending = Log Debug ''Sending request to chief'' ([(''method'', PStr method), (''url'', PStr url)] @ kwargs)
     in case session_request e call of
          Inl exn \<Rightarrow> ([sending, Sent call], Inl (TransportError exn))
        | Inr response \<Rightarrow>
            if ok response then
              ([sending, Sent call,
                Log Debug ''Request to chief succeeded''
                  ([(''method'', PStr method), (''url'', PStr url)] @ kwargs @ [(''response'', success_log_data e response)])],
               Inr response)
            else
              ([sending, Sent call,
                Log Warning ''Request to chief failed'' (failure_log_kwargs e method path response kwargs)],
               if raise_on_failure then Inl (MLRunHTTPError (resp_status_code response) (resp_content response))
               else Inr response))"
  unfolding send_request_to_api_def
  by (simp add: no_clash chief_call_def raise_for_status_def Let_def split: sum.splits)

lemma proxy_sent:
  "sent_calls (fst (proxy_request_to_chief e self method path request body raise_on_failure)) =
     [chief_call e self method path request body]"
  by (simp add: proxy_request_to_chief_def send_resolved Let_def split: sum.splits)

lemma proxy_result:
  "snd (proxy_request_to_chief e self method path request body raise_on_failure) =
     (case session_request e (chief_call e self method path request body) of
        Inl exn \<Rightarrow> Inl (TransportError exn)
      | Inr r \<Rightarrow>
          if \<not> ok r \<and> raise_on_failure then Inl (MLRunHTTPError (resp_status_code r) (resp_content r))
          else Inr (convert_requests_response_to_fastapi_response r))"
  by (simp add: proxy_request_to_chief_def send_resolved Let_def split: sum.splits)

lemma proxy_failure_branch:
  "took_failure_branch (fst (proxy_request_to_chief e self method path request body raise_on_failure)) =
     (case session_request e (chief_call e self method path request body) of
        Inl exn \<Rightarrow> False
      | Inr r \<Rightarrow> \<not> ok r)"
  by (simp add: proxy_request_to_chief_def send_resolved took_failure_branch_def Let_def split: sum.splits)

lemma proxy_success_branch:
  "took_success_branch (fst (proxy_request_to_chief e self method path request body raise_on_failure)) =
     (case session_request e (chief_call e self method path request body) of
        Inl exn \<Rightarrow> False
      | Inr r \<Rightarrow> ok r)"
  by (simp add: proxy_request_to_chief_def send_resolved took_success_branch_def Let_def split: sum.splits)

lemma double_slash_append:
  "double_slash (xs @ ys) \<longleftrightarrow>
     double_slash xs \<or> double_slash ys \<or> (xs \<noteq> [] \<and> ys \<noteq> [] \<and> last xs = CHR ''/'' \<and> hd ys = CHR ''/'')"
proof (induction xs)
  case Nil
  show ?case by simp
next
  case (Cons x xs)
  note IH = Cons.IH
  show ?case
  proof (cases xs)
    case Nil
    then show ?thesis by (cases ys) auto
  next
    case (Cons d s)
    with IH show ?thesis by auto
  qed
qed

lemma endswith_slash: "endswith s ''/'' \<longleftrightarrow> s \<noteq> [] \<and> last s = CHR ''/''"
proof (cases s rule: rev_cases)
  case Nil
  then show ?thesis by (simp add: endswith_def)
next
  case (snoc ys y)
  then show ?thesis by (auto simp add: endswith_def)
qed

lemma endswith_slash2:
  "endswith s ''//'' \<longleftrightarrow> s \<noteq> [] \<and> butlast s \<noteq> [] \<and> last s = CHR ''/'' \<and> last (butlast s) = CHR ''/''"
proof (cases s rule: rev_cases)
  case Nil
  then show ?thesis by (simp add: endswith_def)
next
  case (snoc ys y)
  note outer = snoc
  show ?thesis
  proof (cases ys rule: rev_cases)
    case Nil
    with outer show ?thesis by (simp add: endswith_def)
  next
    case (snoc zs z)
    with outer show ?thesis by (auto simp add: endswith_def butlast_append)
  qed
qed

lemma butlast_snoc_last: "s \<noteq> [] \<Longrightarrow> last s = c \<Longrightarrow> s = butlast s @ [c]"
  by (metis append_butlast_last_id)


lemma proxy_passes_through:
  "passes_through e (proxy_request_to_chief e self method path request body False)"
  unfolding passes_through_def proxy_sent proxy_result
  by (simp split: sum.splits)

lemma py_dict_of_fold:
  assumes "distinct (map f xs)"
    and "set (map f xs) \<inter> fst ` set acc = {}"
    and "\<And>x. x \<in> set xs \<Longrightarrow> g (f x) = Some (val x)"
  shows "fold (\<lambda>k acc. case g k of None \<Rightarrow> acc | Some v \<Rightarrow> AList.update k v acc) (map f xs) acc =
           acc @ map (\<lambda>x. (f x, val x)) xs"
  using assms
proof (induction xs arbitrary: acc)
  case Nil
  then show ?case by simp
next
  case (Cons x xs)
  have notin: "f x \<notin> fst ` set acc" using Cons.prems(2) by auto
  have upd: "AList.update (f x) (val x) acc = acc @ [(f x, val x)]"
    using notin by (induction acc) auto
  have "fold (\<lambda>k acc. case g k of None \<Rightarrow> acc | Some v \<Rightarrow> AList.update k v acc) (map f xs) (acc @ [(f x, val x)]) =
          (acc @ [(f x, val x)]) @ map (\<lambda>x. (f x, val x)) xs"
  proof (rule Cons.IH)
    show "distinct (map f xs)" using Cons.prems(1) by simp
    show "set (map f xs) \<inter> fst ` set (acc @ [(f x, val x)]) = {}"
      using Cons.prems(1,2) by auto
    show "\<And>y. y \<in> set xs \<Longrightarrow> g (f y) = Some (val y)" using Cons.prems(3) by simp
  qed
  then show ?case using Cons.prems(3) [of x] upd by simp
qed

lemma cid_wf_keys:
  assumes "cid_wf h"
  shows "distinct (cid_keys h)"
proof -
  have eq: "map fst h = map lower (cid_keys h)"
    using assms by (induction h) (auto simp add: cid_wf_def cid_keys_def)
  have "distinct (map lower (cid_keys h))"
    using assms eq by (simp add: cid_wf_def)
  then show ?thesis by (simp add: distinct_map)
qed

lemma cid_getitem_keys:
  assumes "cid_wf h" and "x \<in> set h"
  shows "cid_getitem h (fst (snd x)) = Some (snd (snd x))"
proof -
  have "fst x = lower (fst (snd x))"
    using assms by (auto simp add: cid_wf_def list_all_iff)
  moreover have "map_of h (fst x) = Some (snd x)"
    using assms by (simp add: cid_wf_def)
  ultimately show ?thesis by (simp add: cid_getitem_def)
qed

lemma py_dict_of_cid:
  assumes "cid_wf h"
  shows "py_dict_of (cid_keys h) (cid_getitem h) = cid_items h"
proof -
  have "fold (\<lambda>k acc. case cid_getitem h k of None \<Rightarrow> acc | Some v \<Rightarrow> AList.update k v acc)
          (map (\<lambda>e. fst (snd e)) h) [] = [] @ map (\<lambda>e. (fst (snd e), snd (snd e))) h"
  proof (rule py_dict_of_fold)
    show "distinct (map (\<lambda>e. fst (snd e)) h)"
      using cid_wf_keys [OF assms] by (simp add: cid_keys_def)
    show "set (map (\<lambda>e. fst (snd e)) h) \<inter> fst ` set [] = {}" by simp
    show "\<And>x. x \<in> set h \<Longrightarrow> cid_getitem h (fst (snd x)) = Some (snd (snd x))"
      by (rule cid_getitem_keys [OF assms])
  qed
  then show ?thesis by (simp add: py_dict_of_def cid_keys_def cid_items_def)
qed

lemma update_entries: "x \<in> set (AList.update k v al) \<Longrightarrow> x = (k, v) \<or> x \<in> set al"
  by (induction al) (auto split: if_splits)

lemma cid_setitem_wf:
  assumes "cid_wf h"
  shows "cid_wf (cid_setitem h k v)"
proof -
  have "distinct (map fst (AList.update (lower k) (k, v) h))"
    using assms by (simp add: cid_wf_def distinct_update)
  moreover have "fst x = lower (fst (snd x))" if "x \<in> set (AList.update (lower k) (k, v) h)" for x
    using update_entries [OF that] assms by (auto simp add: cid_wf_def list_all_iff)
  ultimately show ?thesis by (simp add: cid_wf_def cid_setitem_def list_all_iff)
qed

lemma cid_wf_fold: "cid_wf h \<Longrightarrow> cid_wf (fold (\<lambda>kv h. cid_setitem h (fst kv) (snd kv)) xs h)"
  by (induction xs arbitrary: h) (simp_all add: cid_setitem_wf)

lemma cid_wf_CaseInsensitiveDict: "cid_wf (CaseInsensitiveDict xs)"
  unfolding CaseInsensitiveDict_def by (rule cid_wf_fold) (simp add: cid_wf_def)

lemma mapping_getitem_keys: "k \<in> set (map fst m) \<Longrightarrow> map_of m k \<noteq> None"
  by (simp add: map_of_eq_None_iff)

lemma deepcopy_props:
  "erase (fst (deepcopy v n)) = erase v \<and> n \<le> snd (deepcopy v n)
     \<and> (\<forall>a \<in> set (addrs (fst (deepcopy v n))). n \<le> a \<and> a < snd (deepcopy v n))"
  "erase_list (fst (deepcopy_list xs n)) = erase_list xs \<and> n \<le> snd (deepcopy_list xs n)
     \<and> (\<forall>a \<in> set (addrs_list (fst (deepcopy_list xs n))). n \<le> a \<and> a < snd (deepcopy_list xs n))"
  "erase_items (fst (deepcopy_items kvs n)) = erase_items kvs \<and> n \<le> snd (deepcopy_items kvs n)
     \<and> (\<forall>a \<in> set (addrs_items (fst (deepcopy_items kvs n))). n \<le> a \<and> a < snd (deepcopy_items kvs n))"
proof (induction v n and xs n and kvs n rule: deepcopy_deepcopy_list_deepcopy_items.induct)
  case (5 a xs n)
  then show ?case by (fastforce split: prod.splits)
next
  case (6 a kvs n)
  then show ?case by (fastforce split: prod.splits)
next
  case (8 x xs n)
  then show ?case by (fastforce split: prod.splits)
next
  case (10 k v kvs n)
  then show ?case by (fastforce split: prod.splits)
qed simp_all

lemma alloc_props:
  "erase (fst (alloc v n)) = v \<and> n \<le> snd (alloc v n)
     \<and> (\<forall>a \<in> set (addrs (fst (alloc v n))). n \<le> a \<and> a < snd (alloc v n))"
  "erase_list (fst (alloc_list xs n)) = xs \<and> n \<le> snd (alloc_list xs n)
     \<and> (\<forall>a \<in> set (addrs_list (fst (alloc_list xs n))). n \<le> a \<and> a < snd (alloc_list xs n))"
  "erase_items (fst (alloc_items kvs n)) = kvs \<and> n \<le> snd (alloc_items kvs n)
     \<and> (\<forall>a \<in> set (addrs_items (fst (alloc_items kvs n))). n \<le> a \<and> a < snd (alloc_items kvs n))"
proof (induction v n and xs n and kvs n rule: alloc_alloc_list_alloc_items.induct)
  case (5 xs n)
  then show ?case by (fastforce split: prod.splits)
next
  case (6 kvs n)
  then show ?case by (fastforce split: prod.splits)
next
  case (8 x xs n)
  then show ?case by (fastforce split: prod.splits)
next
  case (10 k v kvs n)
  then show ?case by (fastforce split: prod.splits)
qed simp_all

lemma update_at_fresh:
  "a \<notin> set (addrs v) \<Longrightarrow> update_at a f v = v"
  "a \<notin> set (addrs_list xs) \<Longrightarrow> update_at_list a f xs = xs"
  "a \<notin> set (addrs_items kvs) \<Longrightarrow> update_at_items a f kvs = kvs"
  by (induction a f v and a f xs and a f kvs rule: update_at_update_at_list_update_at_items.induct) auto

lemma erase_items_update:
  "erase_items (AList.update k v d) = AList.update k (erase v) (erase_items d)"
  by (induction d) auto

lemma erase_items_dict_update:
  "erase_items (dict_update d new) = dict_update (erase_items d) (erase_items new)"
  unfolding dict_update_def
  by (induction new arbitrary: d) (auto simp add: erase_items_update)

lemma addrs_items_update:
  "set (addrs_items (AList.update k v d)) \<subseteq> set (addrs v) \<union> set (addrs_items d)"
  by (induction d) auto

lemma addrs_items_dict_update:
  "set (addrs_items (dict_update d new)) \<subseteq> set (addrs_items d) \<union> set (addrs_items new)"
  unfolding dict_update_def
proof (induction new arbitrary: d)
  case Nil
  show ?case by simp
next
  case (Cons kv new)
  obtain k v where kv: "kv = (k, v)" by (cases kv)
  show ?case
    using Cons.IH [of "AList.update k v d"] addrs_items_update [of k v d]
    by (auto simp add: kv)
qed

lemma map_of_erase_items: "map_of (erase_items d) k = map_option erase (map_of d k)"
  by (induction d) auto

lemma erase_hdict_get: "erase (hdict_get d k) = dict_get (erase_items d) k"
  by (simp add: hdict_get_def dict_get_def map_of_erase_items split: option.splits)

lemma addrs_map_of: "map_of d k = Some v \<Longrightarrow> set (addrs v) \<subseteq> set (addrs_items d)"
  by (induction d) (auto split: if_splits)

lemma addrs_hdict_get: "set (addrs (hdict_get d k)) \<subseteq> set (addrs_items d)"
  using addrs_map_of [of d k] by (auto simp add: hdict_get_def split: option.splits)

lemma erase_PDict: "erase h = PDict d \<Longrightarrow> \<exists>b data. h = HDict b data \<and> erase_items data = d"
  by (cases h) auto

lemma failure_log_kwargs_lookup:
  "map_of (failure_log_kwargs e method path response kwargs) ''method'' = Some (PStr method)"
  "map_of (failure_log_kwargs e method path response kwargs) ''path'' = Some (PStr path)"
  "k \<notin> {''method'', ''path'', ''error'', ''error_stack_trace''} \<Longrightarrow>
     map_of (failure_log_kwargs e method path response kwargs) k = map_of kwargs k"
  by (auto simp add: failure_log_kwargs_def dict_update_def Let_def update_conv'
      split: option.splits pyval.splits)

lemma lower_content_type: "lower ''content-type'' = ''content-type''"
  by code_simp

lemma map_of_lowered_items:
  assumes "cid_wf h"
  shows "map_of (map (\<lambda>kv. (lower (fst kv), snd kv)) (cid_items h)) k = map_option snd (map_of h k)"
  using assms unfolding cid_wf_def cid_items_def
  by (induction h) (auto simp add: list_all_iff)

lemma populate_lookup:
  "map_of (if k \<notin> set (map fst raw) then raw @ [(k, c)] else raw) k =
     Some (case map_of raw k of None \<Rightarrow> c | Some v \<Rightarrow> v)"
proof (cases "map_of raw k")
  case None
  then have "k \<notin> set (map fst raw)" by (simp add: map_of_eq_None_iff)
  then show ?thesis using None by (simp add: map_add_def)
next
  case (Some v)
  then have "k \<in> set (map fst raw)" by (metis map_of_eq_None_iff list.set_map option.distinct(1))
  then show ?thesis using Some by simp
qed

lemma init_headers_content_type:
  assumes "cid_wf (resp_headers r)"
  shows "map_of (init_headers (convert_requests_response_to_fastapi_response r)) ''content-type'' =
     Some (case cid_getitem (resp_headers r) ''content-type'' of
             Some declared \<Rightarrow> declared
           | None \<Rightarrow> ''application/json'')"
proof -
  let ?raw = "map (\<lambda>kv. (lower (fst kv), snd kv)) (cid_items (resp_headers r))"
  have hd: "headers (convert_requests_response_to_fastapi_response r) = cid_items (resp_headers r)"
    using assms by (simp add: convert_requests_response_to_fastapi_response_def py_dict_of_cid)
  have mt: "media_type (convert_requests_response_to_fastapi_response r) = ''application/json''"
    by (simp add: convert_requests_response_to_fastapi_response_def)
  have look: "map_of ?raw ''content-type'' = cid_getitem (resp_headers r) ''content-type''"
    using map_of_lowered_items [OF assms] by (simp add: cid_getitem_def lower_content_type)
  have "init_headers (convert_requests_response_to_fastapi_response r) =
      (if ''content-type'' \<notin> set (map fst ?raw) then ?raw @ [(''content-type'', ''application/json'')] else ?raw)"
    unfolding init_headers_def hd mt Let_def by simp
  then show ?thesis
    unfolding look [symmetric] by (simp only: populate_lookup)
qed






subsection \<open>The outbound URL\<close>

text \<open>
  C1, as the code has it. \<open>proxy_request_to_chief\<close> sends exactly one call, to the URL
  made of the client's base URL, \<^verbatim>\<open>/api/\<close>, the version, a slash and the path. The
  client's base URL is the configured one without one trailing slash. When the
  configured URL does not end in two slashes, joining adds no double slash: the URL has
  one exactly when the base URL or the part from \<^verbatim>\<open>/api/\<close> on has one.
\<close>

theorem forward_url:
  "map call_url (sent_calls (fst (proxy_request_to_chief e (init e) method path request body raise_on_failure))) =
     [api_url (init e) @ ''/api/'' @ api_base_version e @ ''/'' @ path]
   \<and> resolve_chief_api_url e =
       (if endswith (resolve_chief_api_url e) ''/'' then api_url (init e) @ ''/'' else api_url (init e))
   \<and> (\<not> endswith (resolve_chief_api_url e) ''//'' \<longrightarrow>
        double_slash (api_url (init e) @ ''/api/'' @ api_base_version e @ ''/'' @ path) =
          (double_slash (api_url (init e)) \<or> double_slash (''/api/'' @ api_base_version e @ ''/'' @ path)))"
proof (intro conjI impI)
  show "map call_url (sent_calls (fst (proxy_request_to_chief e (init e) method path request body raise_on_failure))) =
     [api_url (init e) @ ''/api/'' @ api_base_version e @ ''/'' @ path]"
    by (simp add: proxy_sent chief_call_def request_url_def)
  show "resolve_chief_api_url e =
       (if endswith (resolve_chief_api_url e) ''/'' then api_url (init e) @ ''/'' else api_url (init e))"
    by (auto simp add: init_def endswith_slash butlast_snoc_last)
  assume "\<not> endswith (resolve_chief_api_url e) ''//''"
  then have "api_url (init e) = [] \<or> last (api_url (init e)) \<noteq> CHR ''/''"
    by (auto simp add: init_def endswith_slash endswith_slash2)
  then show "double_slash (api_url (init e) @ ''/api/'' @ api_base_version e @ ''/'' @ path) =
          (double_slash (api_url (init e)) \<or> double_slash (''/api/'' @ api_base_version e @ ''/'' @ path))"
    by (subst double_slash_append) auto
qed

theorem forward_url_witness:
  "\<not> endswith (resolve_chief_api_url (example_env ''http://chief:8080/'' (Inl ''ConnectionError'') None)) ''//''
   \<and> map call_url (sent_calls (fst (proxy_request_to_chief
         (example_env ''http://chief:8080/'' (Inl ''ConnectionError'') None)
         (init (example_env ''http://chief:8080/'' (Inl ''ConnectionError'') None))
         ''POST'' ''submit_job'' None None False))) = [''http://chief:8080/api/v1/submit_job'']
   \<and> \<not> double_slash (drop 7 ''http://chief:8080/api/v1/submit_job'')"
  using forward_url [of "example_env ''http://chief:8080/'' (Inl ''ConnectionError'') None"
      "''POST''" "''submit_job''" None None False]
  by (simp add: example_env_def init_def endswith_def)

text \<open>
  C1 as stated fails for a configured URL that ends in two slashes: one is stripped, and
  the URL that is sent has a double slash after the host.
\<close>

theorem forward_url_counterexample:
  "map call_url (sent_calls (fst (proxy_request_to_chief
       (example_env ''http://chief:8080//'' (Inl ''ConnectionError'') None)
       (init (example_env ''http://chief:8080//'' (Inl ''ConnectionError'') None))
       ''POST'' ''submit_job'' None None False))) = [''http://chief:8080//api/v1/submit_job'']
   \<and> double_slash (drop 7 ''http://chief:8080//api/v1/submit_job'')"
  by (simp add: proxy_sent chief_call_def request_url_def example_env_def init_def endswith_def)

subsection \<open>Response translation\<close>

text \<open>
  C2, as the code has it. The translated response is constructed with the content and
  the status code of the transport response and with the media type
  \<^verbatim>\<open>application/json\<close>; its headers are the items of the case-insensitive mapping,
  with the keys as they were set, in order. The content type of the response is the one
  the chief declared in its headers, and \<^verbatim>\<open>application/json\<close> only when it declared
  none.
\<close>

theorem convert_response:
  "content (convert_requests_response_to_fastapi_response r) = resp_content r
   \<and> status_code (convert_requests_response_to_fastapi_response r) = resp_status_code r
   \<and> media_type (convert_requests_response_to_fastapi_response r) = ''application/json''
   \<and> (cid_wf (resp_headers r) \<longrightarrow>
        headers (convert_requests_response_to_fastapi_response r) = cid_items (resp_headers r)
        \<and> map_of (init_headers (convert_requests_response_to_fastapi_response r)) ''content-type'' =
            Some (case cid_getitem (resp_headers r) ''content-type'' of
                    Some declared \<Rightarrow> declared
                  | None \<Rightarrow> ''application/json''))"
proof (intro conjI impI)
  assume wf: "cid_wf (resp_headers r)"
  show "headers (convert_requests_response_to_fastapi_response r) = cid_items (resp_headers r)"
    using wf by (simp add: convert_requests_response_to_fastapi_response_def py_dict_of_cid)
  show "map_of (init_headers (convert_requests_response_to_fastapi_response r)) ''content-type'' =
            Some (case cid_getitem (resp_headers r) ''content-type'' of
                    Some declared \<Rightarrow> declared
                  | None \<Rightarrow> ''application/json'')"
    by (rule init_headers_content_type [OF wf])
qed (simp_all add: convert_requests_response_to_fastapi_response_def)

theorem convert_response_witness:
  "cid_wf (resp_headers (example_response 200 example_body [(''X'', ''y'')]))
   \<and> convert_requests_response_to_fastapi_response (example_response 200 example_body [(''X'', ''y'')]) =
     \<lparr>content = example_body, status_code = 200, headers = [(''X'', ''y'')],
      media_type = ''application/json''\<rparr>
   \<and> map_of (init_headers (convert_requests_response_to_fastapi_response
        (example_response 200 example_body [(''X'', ''y'')]))) ''content-type'' = Some ''application/json''"
proof -
  let ?r = "example_response 200 example_body [(''X'', ''y'')]"
  have wf: "cid_wf (resp_headers ?r)"
    by (simp add: example_response_def cid_wf_CaseInsensitiveDict)
  have items: "cid_items (resp_headers ?r) = [(''X'', ''y'')]"
    unfolding example_response_def by code_simp
  have undeclared: "cid_getitem (resp_headers ?r) ''content-type'' = None"
    unfolding example_response_def by code_simp
  show ?thesis
    using convert_response [of ?r] wf items undeclared
    by (simp add: example_response_def)
qed

text \<open>
  C2 as stated fails where the chief declares a content type: the response is
  constructed with the media type \<^verbatim>\<open>application/json\<close>, and its content-type header
  is the chief's \<^verbatim>\<open>text/html\<close>.
\<close>

theorem convert_response_counterexample:
  "map_of (init_headers (convert_requests_response_to_fastapi_response
      (example_response 200 example_body [(''X'', ''y''), (''Content-Type'', ''text/html'')]))) ''content-type'' =
     Some ''text/html''
   \<and> media_type (convert_requests_response_to_fastapi_response
      (example_response 200 example_body [(''X'', ''y''), (''Content-Type'', ''text/html'')])) = ''application/json''"
  by code_simp

subsection \<open>Failing responses\<close>

text \<open>
  C3. When the call that was sent is answered by a failing response (one that is not
  \<open>ok\<close>), \<open>proxy_request_to_chief\<close> raises the domain error if \<open>raise_on_failure\<close> is
  set, and otherwise returns the translated response, which has the status code and
  the content of the chief's response.
\<close>

theorem forward_failing_response:
  assumes "c \<in> set (sent_calls (fst (proxy_request_to_chief e self method path request body raise_on_failure)))"
    and "session_request e c = Inr r"
    and "\<not> ok r"
  shows "snd (proxy_request_to_chief e self method path request body raise_on_failure) =
           (if raise_on_failure then Inl (MLRunHTTPError (resp_status_code r) (resp_content r))
            else Inr (convert_requests_response_to_fastapi_response r))
         \<and> status_code (convert_requests_response_to_fastapi_response r) = resp_status_code r
         \<and> content (convert_requests_response_to_fastapi_response r) = resp_content r"
  using assms unfolding proxy_sent proxy_result
  by (simp add: convert_requests_response_to_fastapi_response_def)

theorem forward_failing_response_witness:
  "snd (proxy_request_to_chief (example_env ''http://chief:8080/'' (Inr (example_response 500 ''boom'' [])) None)
          (init (example_env ''http://chief:8080/'' (Inr (example_response 500 ''boom'' [])) None))
          ''POST'' ''submit_job'' None None True) = Inl (MLRunHTTPError 500 ''boom'')
   \<and> snd (proxy_request_to_chief (example_env ''http://chief:8080/'' (Inr (example_response 500 ''boom'' [])) None)
          (init (example_env ''http://chief:8080/'' (Inr (example_response 500 ''boom'' [])) None))
          ''POST'' ''submit_job'' None None False) =
       Inr \<lparr>content = ''boom'', status_code = 500, headers = [], media_type = ''application/json''\<rparr>"
proof -
  let ?r = "example_response 500 ''boom'' []"
  let ?e = "example_env ''http://chief:8080/'' (Inr ?r) None"
  let ?c = "chief_call ?e (init ?e) ''POST'' ''submit_job'' None None"
  have sent: "?c \<in> set (sent_calls (fst (proxy_request_to_chief ?e (init ?e) ''POST'' ''submit_job'' None None raise_on_failure)))" for raise_on_failure
    by (simp add: proxy_sent)
  have answer: "session_request ?e ?c = Inr ?r"
    by (simp add: example_env_def)
  have failing: "\<not> ok ?r"
    by (simp add: ok_def example_response_def)
  have conv: "convert_requests_response_to_fastapi_response ?r =
      \<lparr>content = ''boom'', status_code = 500, headers = [], media_type = ''application/json''\<rparr>"
    by (simp add: convert_requests_response_to_fastapi_response_def example_response_def
        CaseInsensitiveDict_def py_dict_of_def cid_keys_def)
  show ?thesis
    using forward_failing_response [OF sent answer failing, of True]
      forward_failing_response [OF sent answer failing, of False] conv
    by (simp add: example_response_def)
qed




subsection \<open>Decoding is for the log only\<close>



subsection \<open>Calls without an inbound request\<close>

text \<open>
  C6. Without an inbound request the translation step yields no keyword arguments, and
  the one call that is sent carries the default timeout and nothing else: no
  \<^verbatim>\<open>data\<close>, \<^verbatim>\<open>headers\<close>, \<^verbatim>\<open>params\<close> or \<^verbatim>\<open>cookies\<close>.
\<close>

theorem no_request_no_kwargs:
  "resolve_request_kwargs_from_request None body = []
   \<and> sent_calls (fst (proxy_request_to_chief e self method path None body raise_on_failure)) =
       [\<lparr>call_method = method, call_url = request_url e self path, call_verify = False,
         call_kwargs = [(''timeout'', PInt 20)]\<rparr>]"
  unfolding proxy_sent
  by (simp add: chief_call_def resolve_None default_timeout_def dict_get_def)

theorem no_request_no_kwargs_witness:
  "sent_calls (fst (trigger_migrations (example_env ''http://chief:8080/'' (Inr (example_response 202 [] [])) None)
       (init (example_env ''http://chief:8080/'' (Inr (example_response 202 [] [])) None)) None)) =
     [\<lparr>call_method = ''POST'', call_url = ''http://chief:8080/api/v1/operations/migrations'',
       call_verify = False, call_kwargs = [(''timeout'', PInt 20)]\<rparr>]"
  using no_request_no_kwargs [of None
      "example_env ''http://chief:8080/'' (Inr (example_response 202 [] [])) None"
      "init (example_env ''http://chief:8080/'' (Inr (example_response 202 [] [])) None)"
      "''POST''" "''operations/migrations''" False]
  by (simp add: trigger_migrations_def request_url_def init_def example_env_def endswith_def)

text \<open>
  C9. Without an inbound request a body is dropped without a trace: the call behaves
  as the same call with no body, and the call that is sent has no \<^verbatim>\<open>data\<close> argument.
\<close>

theorem body_dropped_without_request:
  "proxy_request_to_chief e self method path None (Some b) raise_on_failure =
     proxy_request_to_chief e self method path None None raise_on_failure
   \<and> (\<forall>c \<in> set (sent_calls (fst (proxy_request_to_chief e self method path None (Some b) raise_on_failure))).
        \<not> has_key (call_kwargs c) ''data'')"
  unfolding proxy_sent
  by (simp add: proxy_request_to_chief_def chief_call_def resolve_None has_key_def default_timeout_def dict_get_def)

theorem body_dropped_without_request_witness:
  "sent_calls (fst (proxy_request_to_chief
       (example_env ''http://chief:8080/'' (Inr (example_response 200 [] [])) None)
       (init (example_env ''http://chief:8080/'' (Inr (example_response 200 [] [])) None))
       ''POST'' ''submit_job'' None (Some [(''task'', PStr ''train'')]) False)) =
     [\<lparr>call_method = ''POST'', call_url = ''http://chief:8080/api/v1/submit_job'', call_verify = False,
       call_kwargs = [(''timeout'', PInt 20)]\<rparr>]
   \<and> \<not> has_key [(''timeout'', PInt 20)] ''data''"
proof -
  let ?e = "example_env ''http://chief:8080/'' (Inr (example_response 200 [] [])) None"
  have none: "sent_calls (fst (proxy_request_to_chief ?e (init ?e) ''POST'' ''submit_job'' None None False)) =
     [\<lparr>call_method = ''POST'', call_url = ''http://chief:8080/api/v1/submit_job'', call_verify = False,
       call_kwargs = [(''timeout'', PInt 20)]\<rparr>]"
    by (simp add: proxy_sent chief_call_def resolve_None default_timeout_def dict_get_def request_url_def
        init_def example_env_def endswith_def)
  have same: "proxy_request_to_chief ?e (init ?e) ''POST'' ''submit_job'' None (Some [(''task'', PStr ''train'')]) False =
      proxy_request_to_chief ?e (init ?e) ''POST'' ''submit_job'' None None False"
    using body_dropped_without_request [of ?e "init ?e" "''POST''" "''submit_job''"
        "[(''task'', PStr ''train'')]" False]
    by (rule conjunct1)
  show ?thesis
    unfolding same none by (simp add: has_key_def)
qed

subsection \<open>Failure of the transport\<close>

text \<open>
  C7, as the code has it. When the session raises instead of answering, the exception
  leaves \<open>proxy_request_to_chief\<close> as it is, whatever \<open>raise_on_failure\<close> says: no
  response is returned, and neither the warning nor the success line is logged.
\<close>

theorem transport_failure_propagates:
  assumes "c \<in> set (sent_calls (fst (proxy_request_to_chief e self method path request body raise_on_failure)))"
    and "session_request e c = Inl exn"
  shows "snd (proxy_request_to_chief e self method path request body raise_on_failure) = Inl (TransportError exn)
       \<and> \<not> took_failure_branch (fst (proxy_request_to_chief e self method path request body raise_on_failure))
       \<and> \<not> took_success_branch (fst (proxy_request_to_chief e self method path request body raise_on_failure))"
  using assms unfolding proxy_failure_branch proxy_success_branch proxy_sent proxy_result
  by simp

theorem transport_failure_propagates_witness:
  "snd (proxy_request_to_chief (example_env ''http://chief:8080/'' (Inl ''ConnectionError'') None)
          (init (example_env ''http://chief:8080/'' (Inl ''ConnectionError'') None))
          ''POST'' ''operations/migrations'' None None True) = Inl (TransportError ''ConnectionError'')"
proof -
  let ?e = "example_env ''http://chief:8080/'' (Inl ''ConnectionError'') None"
  let ?c = "chief_call ?e (init ?e) ''POST'' ''operations/migrations'' None None"
  have sent: "?c \<in> set (sent_calls (fst (proxy_request_to_chief ?e (init ?e) ''POST'' ''operations/migrations'' None None True)))"
    by (simp add: proxy_sent)
  have answer: "session_request ?e ?c = Inl ''ConnectionError''"
    by (simp add: example_env_def)
  show ?thesis
    using transport_failure_propagates [OF sent answer] by simp
qed

text \<open>
  C7 as stated fails: with the default \<open>raise_on_failure\<close> a connection error of the
  session reaches the caller as that error, and no warning is logged.
\<close>

theorem transport_failure_counterexample:
  "snd (proxy_request_to_chief (example_env ''http://chief:8080/'' (Inl ''ConnectionError'') None)
          (init (example_env ''http://chief:8080/'' (Inl ''ConnectionError'') None))
          ''POST'' ''operations/migrations'' None None False) = Inl (TransportError ''ConnectionError'')
   \<and> logged Warning ''Request to chief failed''
        (fst (proxy_request_to_chief (example_env ''http://chief:8080/'' (Inl ''ConnectionError'') None)
          (init (example_env ''http://chief:8080/'' (Inl ''ConnectionError'') None))
          ''POST'' ''operations/migrations'' None None False)) = []"
  using proxy_failure_branch [of "example_env ''http://chief:8080/'' (Inl ''ConnectionError'') None"
      "init (example_env ''http://chief:8080/'' (Inl ''ConnectionError'') None)"
      "''POST''" "''operations/migrations''" None None False]
  by (simp add: proxy_result took_failure_branch_def example_env_def)

subsection \<open>The dictionary that is logged on failure\<close>

text \<open>
  C8, as the code has it. When every address in \<open>kwargs\<close> is in use (below the next free
  one), the logging step leaves \<open>kwargs\<close> as it was; the dictionary it logs has the
  value \<open>failure_log_kwargs\<close> computes, which is the value of \<open>kwargs\<close> with the method
  and the path added (and nothing else changed but the two error keys); and it is a
  deep copy: no object of it is an object of \<open>kwargs\<close>.
\<close>

theorem log_kwargs_deep_copy:
  assumes fresh: "\<forall>a \<in> set (addrs (HDict a0 items)). a < n"
  shows "fst (failure_log_kwargs_store e method path response a0 items n) = HDict a0 items
       \<and> erase (fst (snd (failure_log_kwargs_store e method path response a0 items n))) =
           PDict (failure_log_kwargs e method path response (erase_items items))
       \<and> map_of (failure_log_kwargs e method path response (erase_items items)) ''method'' = Some (PStr method)
       \<and> map_of (failure_log_kwargs e method path response (erase_items items)) ''path'' = Some (PStr path)
       \<and> (\<forall>k. k \<notin> {''method'', ''path'', ''error'', ''error_stack_trace''} \<longrightarrow>
            map_of (failure_log_kwargs e method path response (erase_items items)) k = map_of (erase_items items) k)
       \<and> set (addrs (fst (snd (failure_log_kwargs_store e method path response a0 items n))))
           \<inter> set (addrs (HDict a0 items)) = {}"
proof -
  have lookup:
    "map_of (failure_log_kwargs e method path response (erase_items items)) ''method'' = Some (PStr method)"
    "map_of (failure_log_kwargs e method path response (erase_items items)) ''path'' = Some (PStr path)"
    "\<forall>k. k \<notin> {''method'', ''path'', ''error'', ''error_stack_trace''} \<longrightarrow>
       map_of (failure_log_kwargs e method path response (erase_items items)) k = map_of (erase_items items) k"
    by (simp_all add: failure_log_kwargs_lookup)
  define add_call where
    "add_call = (\<lambda>d. dict_update d [(''method'', HStr method), (''path'', HStr path)])"
  obtain items' n1 where dc: "deepcopy_items items (Suc n) = (items', n1)"
    by (cases "deepcopy_items items (Suc n)")
  have copy: "erase_items items' = erase_items items"
    and copy_addrs: "\<forall>a \<in> set (addrs_items items'). Suc n \<le> a \<and> a < n1"
    and n1: "Suc n \<le> n1"
    using deepcopy_props(3) [of items "Suc n"] dc by simp_all
  have old: "n \<notin> set (addrs (HDict a0 items))"
    using fresh by auto
  have kwargs_same: "update_at n f (HDict a0 items) = HDict a0 items" for f
    by (rule update_at_fresh(1) [OF old])
  have new_inner: "n \<notin> set (addrs_items items')"
    using copy_addrs by auto
  define its1 where "its1 = add_call items'"
  have log1: "update_at n add_call (HDict n items') = HDict n its1"
    using update_at_fresh(3) [OF new_inner] by (simp add: its1_def)
  have its1_addrs: "set (addrs_items its1) \<subseteq> set (addrs_items items')"
    using addrs_items_dict_update [of items' "[(''method'', HStr method), (''path'', HStr path)]"]
    by (simp add: its1_def add_call_def)
  have its1_erase: "erase_items its1 =
      dict_update (erase_items items) [(''method'', PStr method), (''path'', PStr path)]"
    by (simp add: its1_def add_call_def erase_items_dict_update copy)
  have its1_inner: "n \<notin> set (addrs_items its1)"
    using its1_addrs new_inner by auto
  have its1_new: "\<forall>a \<in> set (addrs (HDict n its1)). n \<le> a"
    using its1_addrs copy_addrs by fastforce
  have step1: "failure_log_kwargs_store e method path response a0 items n =
      (if resp_content response \<noteq> [] then
         (case response_json e response of
            None \<Rightarrow> (HDict a0 items, HDict n its1, n1)
          | Some decoded \<Rightarrow>
              (case alloc decoded n1 of
                 (HDict b data, n2) \<Rightarrow>
                   (HDict a0 items,
                    HDict n (dict_update its1
                      [(''error'', hdict_get data ''error''),
                       (''error_stack_trace'', hdict_get data ''errorStackTrace'')]),
                    n2)
               | (other, n2) \<Rightarrow> (HDict a0 items, HDict n its1, n2)))
       else (HDict a0 items, HDict n its1, n1))"
  proof -
    have upd: "update_at n f (HDict n its) = HDict n (f its)" if "n \<notin> set (addrs_items its)" for f its
      using update_at_fresh(3) [OF that] by simp
    note first = upd [OF new_inner]
    note second = upd [OF its1_inner [unfolded its1_def add_call_def]]
    show ?thesis
      unfolding failure_log_kwargs_store_def
      by (simp add: dc kwargs_same first second its1_def add_call_def Let_def
          del: update_at.simps split: option.splits prod.splits hval.splits)
  qed
  have plain: "erase (HDict n its1) =
      PDict (dict_update (erase_items items) [(''method'', PStr method), (''path'', PStr path)])"
    by (simp add: its1_erase)
  show ?thesis
  proof (cases "resp_content response \<noteq> [] \<and> response_json e response \<noteq> None")
    case False
    then have "failure_log_kwargs_store e method path response a0 items n =
        (HDict a0 items, HDict n its1, n1)"
      by (auto simp add: step1)
    moreover have "failure_log_kwargs e method path response (erase_items items) =
        dict_update (erase_items items) [(''method'', PStr method), (''path'', PStr path)]"
      using False by (auto simp add: failure_log_kwargs_def Let_def)
    ultimately show ?thesis
      using its1_new fresh plain lookup by fastforce
  next
    case True
    then obtain decoded where dec: "response_json e response = Some decoded"
      and body: "resp_content response \<noteq> []" by auto
    obtain h n2 where al: "alloc decoded n1 = (h, n2)" by (cases "alloc decoded n1")
    have h_erase: "erase h = decoded"
      and h_addrs: "\<forall>a \<in> set (addrs h). n1 \<le> a \<and> a < n2"
      using alloc_props(1) [of decoded n1] al by simp_all
    show ?thesis
    proof (cases "\<exists>b data. h = HDict b data")
      case False
      then have "failure_log_kwargs_store e method path response a0 items n =
          (HDict a0 items, HDict n its1, n2)"
        by (cases h) (simp_all add: step1 body dec al)
      moreover have "\<nexists>d. decoded = PDict d"
        using erase_PDict [of h] h_erase False by auto
      then have "failure_log_kwargs e method path response (erase_items items) =
          dict_update (erase_items items) [(''method'', PStr method), (''path'', PStr path)]"
        using body dec by (cases decoded) (simp_all add: failure_log_kwargs_def Let_def)
      ultimately show ?thesis
        using its1_new fresh plain lookup by fastforce
    next
      case True
      then obtain b data where h: "h = HDict b data" by auto
      define its2 where "its2 = dict_update its1
          [(''error'', hdict_get data ''error''),
           (''error_stack_trace'', hdict_get data ''errorStackTrace'')]"
      have out: "failure_log_kwargs_store e method path response a0 items n =
          (HDict a0 items, HDict n its2, n2)"
        by (simp add: step1 body dec al h its2_def)
      have decoded: "decoded = PDict (erase_items data)"
        using h_erase h by simp
      have on_values: "failure_log_kwargs e method path response (erase_items items) = erase_items its2"
        using body dec decoded
        by (simp add: failure_log_kwargs_def Let_def its2_def erase_items_dict_update its1_erase erase_hdict_get)
      have data_addrs: "\<forall>a \<in> set (addrs_items data). n1 \<le> a"
        using h_addrs h by auto
      have "set (addrs_items its2) \<subseteq> set (addrs_items its1) \<union> set (addrs_items data)"
        using addrs_items_dict_update [of its1 "[(''error'', hdict_get data ''error''),
           (''error_stack_trace'', hdict_get data ''errorStackTrace'')]"]
          addrs_hdict_get [of data "''error''"] addrs_hdict_get [of data "''errorStackTrace''"]
        by (auto simp add: its2_def)
      then have "\<forall>a \<in> set (addrs (HDict n its2)). n \<le> a"
        using its1_new data_addrs n1 by fastforce
      then show ?thesis
        using out on_values fresh lookup by fastforce
    qed
  qed
qed

theorem log_kwargs_deep_copy_witness:
  "addrs (HDict 0 example_kwargs) = [0, 1, 2, 3, 4]
   \<and> fst (failure_log_kwargs_store (example_env ''http://chief:8080/'' (Inr (example_response 500 [] [])) None)
        ''POST'' ''submit_job'' (example_response 500 [] []) 0 example_kwargs 5) = HDict 0 example_kwargs
   \<and> set (addrs (fst (snd (failure_log_kwargs_store
        (example_env ''http://chief:8080/'' (Inr (example_response 500 [] [])) None)
        ''POST'' ''submit_job'' (example_response 500 [] []) 0 example_kwargs 5))))
        \<inter> set (addrs (HDict 0 example_kwargs)) = {}"
proof -
  have fresh: "\<forall>a \<in> set (addrs (HDict 0 example_kwargs)). a < 5"
    by (simp add: example_kwargs_def)
  have used: "addrs (HDict 0 example_kwargs) = [0, 1, 2, 3, 4]"
    by (simp add: example_kwargs_def)
  show ?thesis
    using log_kwargs_deep_copy [OF fresh] used by blast
qed

text \<open>
  C8 as stated fails: the dictionary that is logged is not the shallow copy. Its
  members are new objects (addresses 6 to 9), where a shallow copy holds the member
  objects of \<open>kwargs\<close> themselves (addresses 1 to 4).
\<close>

theorem log_kwargs_shallow_counterexample:
  "fst (snd (failure_log_kwargs_store (example_env ''http://chief:8080/'' (Inr (example_response 500 [] [])) None)
       ''POST'' ''submit_job'' (example_response 500 [] []) 0 example_kwargs 5)) =
     HDict 5 [(''data'', HDict 6 []), (''headers'', HDict 7 [(''x'', HStr ''y'')]), (''params'', HDict 8 []),
      (''cookies'', HDict 9 []), (''timeout'', HInt 20), (''method'', HStr ''POST''), (''path'', HStr ''submit_job'')]
   \<and> spec_shallow_log_kwargs ''POST'' ''submit_job'' 0 example_kwargs 5 =
     HDict 5 [(''data'', HDict 1 []), (''headers'', HDict 2 [(''x'', HStr ''y'')]), (''params'', HDict 3 []),
      (''cookies'', HDict 4 []), (''timeout'', HInt 20), (''method'', HStr ''POST''), (''path'', HStr ''submit_job'')]
   \<and> fst (snd (failure_log_kwargs_store (example_env ''http://chief:8080/'' (Inr (example_response 500 [] [])) None)
       ''POST'' ''submit_job'' (example_response 500 [] []) 0 example_kwargs 5)) \<noteq>
     spec_shallow_log_kwargs ''POST'' ''submit_job'' 0 example_kwargs 5"
  by (simp add: failure_log_kwargs_store_def spec_shallow_log_kwargs_def shallow_copy_def
      example_kwargs_def example_response_def dict_update_def)

subsection \<open>The named operations\<close>

text \<open>
  C10. Each of the ten named operations has a pass-through outcome: it sends one call
  and returns the translation of the response that came back, whatever its status; the
  only exception it can raise is the one of the session, never the domain error.
\<close>

theorem named_operations_pass_through:
  "passes_through e (get_internal_background_task e self name request)
   \<and> passes_through e (trigger_migrations e self request)
   \<and> passes_through e (create_schedule e self project request body)
   \<and> passes_through e (update_schedule e self project name request body)
   \<and> passes_through e (delete_schedule e self project name request)
   \<and> passes_through e (delete_schedules e self project request)
   \<and> passes_through e (invoke_schedule e self project name request)
   \<and> passes_through e (submit_job e self request body)
   \<and> passes_through e (build_function e self request body)
   \<and> passes_through e (delete_project e self name request)"
  unfolding get_internal_background_task_def trigger_migrations_def create_schedule_def
    update_schedule_def delete_schedule_def delete_schedules_def invoke_schedule_def
    submit_job_def build_function_def delete_project_def
  by (simp add: proxy_passes_through)

theorem named_operations_pass_through_witness:
  "snd (delete_project (example_env ''http://chief:8080/'' (Inr (example_response 404 ''gone'' [])) None)
          (init (example_env ''http://chief:8080/'' (Inr (example_response 404 ''gone'' [])) None))
          ''p1'' None) =
     Inr \<lparr>content = ''gone'', status_code = 404, headers = [], media_type = ''application/json''\<rparr>"
proof -
  let ?r = "example_response 404 ''gone'' []"
  let ?e = "example_env ''http://chief:8080/'' (Inr ?r) None"
  have sent: "sent_calls (fst (delete_project ?e (init ?e) ''p1'' None)) =
      [chief_call ?e (init ?e) ''DELETE'' ''projects/p1'' None None]"
    by (simp add: delete_project_def proxy_sent)
  have conv: "convert_requests_response_to_fastapi_response ?r =
      \<lparr>content = ''gone'', status_code = 404, headers = [], media_type = ''application/json''\<rparr>"
    by (simp add: convert_requests_response_to_fastapi_response_def example_response_def
        CaseInsensitiveDict_def py_dict_of_def cid_keys_def)
  have "passes_through ?e (delete_project ?e (init ?e) ''p1'' None)"
    using named_operations_pass_through [of ?e "init ?e" "''p1''" None]
    by simp
  then show ?thesis
    using sent conv by (simp add: passes_through_def example_env_def)
qed

end
